theory Spec2Isabelle
  imports Complex_Main "HOL-Library.AList"
begin

section \<open>Python strings\<close>

text \<open>
  A Python \<open>str\<close> is a sequence of Unicode code points, and \<open>len\<close> counts code points.
  The model therefore uses lists of natural numbers (one number per code point), not
  HOL's byte strings.  \<open>py\<close> turns an ASCII literal of the source into such a list.
\<close>

type_synonym pystr = "nat list"

definition py :: "string \<Rightarrow> pystr" where
  "py s = map of_char s"

text \<open>\<open>str.isspace\<close> for one code point: the code points Python treats as whitespace.\<close>

definition isspace :: "nat \<Rightarrow> bool" where
  "isspace c \<longleftrightarrow> (9 \<le> c \<and> c \<le> 13) \<or> (28 \<le> c \<and> c \<le> 32) \<or> c = 133 \<or> c = 160
     \<or> c = 5760 \<or> (8192 \<le> c \<and> c \<le> 8202) \<or> c = 8232 \<or> c = 8233 \<or> c = 8239
     \<or> c = 8287 \<or> c = 12288"

text \<open>\<open>s.strip()\<close>: leading and trailing whitespace removed.\<close>

definition strip :: "pystr \<Rightarrow> pystr" where
  "strip s = rev (dropWhile isspace (rev (dropWhile isspace s)))"

text \<open>\<open>s.startswith(p)\<close>.\<close>

definition startswith :: "pystr \<Rightarrow> pystr \<Rightarrow> bool" where
  "startswith s p \<longleftrightarrow> take (length p) s = p"

text \<open>\<open>sub in s\<close> for strings: \<open>sub\<close> occurs in \<open>s\<close> at some position.\<close>

fun contains :: "pystr \<Rightarrow> pystr \<Rightarrow> bool" where
  "contains sub [] \<longleftrightarrow> sub = []"
| "contains sub (c # cs) \<longleftrightarrow> startswith (c # cs) sub \<or> contains sub cs"

text \<open>
  \<open>s.split(sep)[-1]\<close> for a non-empty separator: the text after the last occurrence of
  \<open>sep\<close> found by the left-to-right scan of \<open>split\<close>, or all of \<open>s\<close> when there is none.
  \<open>cur\<close> is the piece being collected (reversed).
\<close>

function split_last :: "pystr \<Rightarrow> pystr \<Rightarrow> pystr \<Rightarrow> pystr" where
  "split_last sep cur [] = rev cur"
| "split_last sep cur (c # cs) =
     (if sep \<noteq> [] \<and> startswith (c # cs) sep
      then split_last sep [] (drop (length sep) (c # cs))
      else split_last sep (c # cur) cs)"
  by pat_completeness auto
termination
  by (relation "measure (\<lambda>(sep, cur, s). length s)") auto

text \<open>\<open>"\n".join(xs)\<close>.\<close>

fun join_lines :: "pystr list \<Rightarrow> pystr" where
  "join_lines [] = []"
| "join_lines [x] = x"
| "join_lines (x # y # ys) = x @ [10] @ join_lines (y # ys)"

text \<open>\<open>str(n)\<close> for an integer: its decimal digits, with a minus sign when negative.\<close>

function str_nat :: "nat \<Rightarrow> pystr" where
  "str_nat n = (if n < 10 then [48 + n] else str_nat (n div 10) @ [48 + n mod 10])"
  by pat_completeness auto
termination
  by (relation "measure id") auto

declare str_nat.simps [simp del]

definition str_int :: "int \<Rightarrow> pystr" where
  "str_int i = (if i < 0 then 45 # str_nat (nat (- i)) else str_nat (nat i))"

text \<open>\<open>" ".join(xs)\<close>.\<close>

fun join_spaces :: "pystr list \<Rightarrow> pystr" where
  "join_spaces [] = []"
| "join_spaces [x] = x"
| "join_spaces (x # y # ys) = x @ [32] @ join_spaces (y # ys)"

text \<open>
  The maximal runs of non-whitespace characters of a string, in order (what the regular
  expression \<open>\S+\<close> finds).  \<open>cur\<close> is the run being collected (reversed).
\<close>

fun nonwhitespace_runs :: "pystr \<Rightarrow> pystr \<Rightarrow> pystr list" where
  "nonwhitespace_runs cur [] = (if cur = [] then [] else [rev cur])"
| "nonwhitespace_runs cur (c # cs) =
     (if isspace c
      then (if cur = [] then nonwhitespace_runs [] cs else rev cur # nonwhitespace_runs [] cs)
      else nonwhitespace_runs (c # cur) cs)"

text \<open>\<open>xs[:5] or [d]\<close>: the first five entries, or the one default entry when there is none.\<close>

definition first5_or :: "'a list \<Rightarrow> 'a \<Rightarrow> 'a list" where
  "first5_or xs d = (if take 5 xs = [] then [d] else take 5 xs)"

section \<open>What the libraries provide\<close>

text \<open>
  The program is built on \<open>bs4\<close>, \<open>urllib.parse\<close>, \<open>json\<close> and \<open>requests\<close>.  Exceptions
  are values: a library call that can raise returns \<open>Inl\<close> of the exception.
\<close>

datatype py_exception =
  ValueError | TypeError | AttributeError | JSONDecodeError | ParserRejectedMarkup
  | OtherException pystr

text \<open>
  The parse tree that \<open>BeautifulSoup(html, 'html.parser')\<close> builds.  A \<open>NavigableString\<close>
  is ordinary text (or CDATA), the strings \<open>get_text\<close> collects; \<open>OtherString\<close> stands for
  the string classes \<open>get_text\<close> leaves out (comments, doctype and declarations, and the
  contents of script and style elements).  A \<open>Tag\<close> has its name, its attributes (each
  name once, as in the dictionary \<open>tag.attrs\<close>) and its children in document order.  An
  attribute value is kept as its text; \<open>bs4\<close> splits the \<open>rel\<close> of a \<open>link\<close> element into
  its whitespace-separated tokens, which the model does where that list is searched
  (\<open>rel_matches\<close>).  The soup itself is the list of the top-level nodes.
\<close>

datatype node =
  NavigableString pystr
  | OtherString pystr
  | Tag pystr "(pystr \<times> pystr) list" "node list"

text \<open>Values that \<open>json.loads\<close> returns (a Python float is held as a real number).\<close>

datatype pyval =
  PNone | PBool bool | PInt int | PFloat real | PStr pystr
  | PList "pyval list" | PDict "(pystr \<times> pyval) list"

text \<open>
  The library functions whose code is outside the repository are parameters of the
  model, collected in one record:
  \<^item> \<open>html_parser\<close>: \<open>BeautifulSoup(html, 'html.parser')\<close>, the soup's top-level nodes;
  \<^item> \<open>urljoin_rest\<close>: \<open>urllib.parse.urljoin\<close> when neither argument is empty;
  \<^item> \<open>urlparse_netloc\<close>: \<open>urllib.parse.urlparse(u).netloc\<close>;
  \<^item> \<open>lower\<close>: \<open>str.lower\<close>;
  \<^item> \<open>json_loads\<close>: \<open>json.loads\<close>;
  \<^item> \<open>set_order\<close>: the order in which \<open>list(s)\<close> enumerates a set, given its elements.
\<close>

record pylib =
  html_parser :: "pystr \<Rightarrow> py_exception + node list"
  urljoin_rest :: "pystr \<Rightarrow> pystr \<Rightarrow> py_exception + pystr"
  urlparse_netloc :: "pystr \<Rightarrow> py_exception + pystr"
  lower :: "pystr \<Rightarrow> pystr"
  json_loads :: "pystr \<Rightarrow> py_exception + pyval"
  set_order :: "pystr list \<Rightarrow> pystr list"

text \<open>
  \<open>urljoin(base, url)\<close> begins with \<^verbatim>\<open>if not base: return url\<close> and
  \<^verbatim>\<open>if not url: return base\<close>; everything after that is \<open>urljoin_rest\<close>.
\<close>

definition urljoin :: "pylib \<Rightarrow> pystr \<Rightarrow> pystr \<Rightarrow> py_exception + pystr" where
  "urljoin L base url =
     (if base = [] then Inr url else if url = [] then Inr base else urljoin_rest L base url)"

section \<open>Searching the parse tree\<close>

text \<open>\<open>tag.descendants\<close>: every node below, in document order.\<close>

fun descendants :: "node \<Rightarrow> node list" and descendants_of :: "node list \<Rightarrow> node list" where
  "descendants (NavigableString s) = []"
| "descendants (OtherString s) = []"
| "descendants (Tag nm ats cs) = descendants_of cs"
| "descendants_of [] = []"
| "descendants_of (c # cs) = c # descendants c @ descendants_of cs"

fun is_named :: "pystr \<Rightarrow> node \<Rightarrow> bool" where
  "is_named nm (Tag n ats cs) \<longleftrightarrow> n = nm"
| "is_named nm (NavigableString s) \<longleftrightarrow> False"
| "is_named nm (OtherString s) \<longleftrightarrow> False"

text \<open>\<open>tag.get(key)\<close>: the attribute's value, \<open>None\<close> when the tag has no such attribute.\<close>

fun tag_get :: "node \<Rightarrow> pystr \<Rightarrow> pystr option" where
  "tag_get (Tag n ats cs) k = map_of ats k"
| "tag_get (NavigableString s) k = None"
| "tag_get (OtherString s) k = None"

text \<open>
  \<open>soup.find_all(name, ...)\<close>: the tags of that name that pass the attribute filter, in
  document order; \<open>soup.find(name, ...)\<close> is the first of them, or \<open>None\<close>.
\<close>

definition find_all :: "node list \<Rightarrow> pystr \<Rightarrow> (node \<Rightarrow> bool) \<Rightarrow> node list" where
  "find_all soup nm flt = filter (\<lambda>t. is_named nm t \<and> flt t) (descendants_of soup)"

definition find_tag :: "node list \<Rightarrow> pystr \<Rightarrow> (node \<Rightarrow> bool) \<Rightarrow> node option" where
  "find_tag soup nm flt = (case find_all soup nm flt of [] \<Rightarrow> None | t # ts \<Rightarrow> Some t)"

text \<open>The attribute filters the program uses: no filter, \<open>key=True\<close>, \<open>key="value"\<close>.\<close>

definition any_tag :: "node \<Rightarrow> bool" where
  "any_tag t \<longleftrightarrow> True"

definition attr_present :: "pystr \<Rightarrow> node \<Rightarrow> bool" where
  "attr_present k t \<longleftrightarrow> tag_get t k \<noteq> None"

definition attr_is :: "pystr \<Rightarrow> pystr \<Rightarrow> node \<Rightarrow> bool" where
  "attr_is k v t \<longleftrightarrow> tag_get t k = Some v"

text \<open>
  A filter on \<open>rel\<close>, which \<open>bs4\<close> holds as a list of tokens: the filter passes when one
  token passes the test, or the tokens joined by single spaces do.
\<close>

definition rel_matches :: "(pystr \<Rightarrow> bool) \<Rightarrow> node \<Rightarrow> bool" where
  "rel_matches test t =
     (case tag_get t (py ''rel'') of
        None \<Rightarrow> False
      | Some v \<Rightarrow>
          (let toks = nonwhitespace_runs [] v
           in list_ex test toks \<or> test (join_spaces toks)))"

text \<open>
  \<open>tag.string\<close>: the single child when it is a string, the \<open>.string\<close> of the single
  child when it is a tag, and \<open>None\<close> when the tag has no child or several.
\<close>

fun node_string :: "node \<Rightarrow> pystr option" where
  "node_string (NavigableString s) = Some s"
| "node_string (OtherString s) = Some s"
| "node_string (Tag n ats [c]) = node_string c"
| "node_string (Tag n ats cs) = None"

text \<open>
  \<open>tag.get_text(strip=True)\<close>: every ordinary string below the tag is stripped, the
  empty results are dropped, and the rest are concatenated with nothing between them.
\<close>

fun stripped_string :: "node \<Rightarrow> pystr" where
  "stripped_string (NavigableString s) = strip s"
| "stripped_string (OtherString s) = []"
| "stripped_string (Tag n ats cs) = []"

definition get_text_strip :: "node \<Rightarrow> pystr" where
  "get_text_strip t = concat (filter (\<lambda>s. s \<noteq> []) (map stripped_string (descendants t)))"

section \<open>The fetcher\<close>

text \<open>
  What \<open>session.get(url, headers=HEADERS, timeout=10)\<close> can do: return a response, or
  raise.  The retries of the mounted adapter happen inside that call.  An exception is
  an \<open>HTTPError\<close> (a \<open>RequestException\<close> that carries its response), another
  \<open>RequestException\<close> with its \<open>.response\<close> (often \<open>None\<close>) and its message, or an
  exception that is not a \<open>RequestException\<close>.
\<close>

record response =
  resp_text :: pystr
  resp_status :: int
  resp_headers :: "pystr \<Rightarrow> pystr option"

datatype raised =
  HTTPError response
  | RequestException "response option" pystr
  | NotRequestException py_exception

datatype get_outcome = Responds response | Raises raised

text \<open>The status the program reports: the response's integer code, or a string.\<close>

datatype status = StatusCode int | StatusStr pystr

text \<open>The two log lines of the fetcher, with the values they print.\<close>

datatype log_line =
  LogFetched pystr int real
  | LogFailed pystr status raised

text \<open>\<open>response.raise_for_status()\<close>: raises \<open>HTTPError\<close> for a status from 400 to 599.\<close>

definition raise_for_status :: "response \<Rightarrow> raised option" where
  "raise_for_status r =
     (if 400 \<le> resp_status r \<and> resp_status r < 600 then Some (HTTPError r) else None)"

text \<open>
  \<^verbatim>\<open>
  def fetch_website_content(url: str):
      try:
          start = time.time()
          response = session.get(url, headers=HEADERS, timeout=10)
          response.raise_for_status()
          load_time = time.time() - start
          logging.info(...)
          return response.text, response.status_code, response.headers, load_time
      except requests.RequestException as e:
          status_code = getattr(e.response, 'status_code', 'N/A')
          logging.error(...)
          return None, status_code, {}, 0
  \<close>
  \<open>handle_request_exception\<close> is the \<open>except\<close> clause: it handles the two kinds of
  \<open>RequestException\<close> and lets any other exception pass.  The two readings of the clock
  are arguments.  The result is the returned tuple and the log line, or the exception
  that leaves the function.
\<close>

type_synonym fetched = "pystr option \<times> status \<times> (pystr \<Rightarrow> pystr option) \<times> real"

definition handle_request_exception ::
    "pystr \<Rightarrow> raised \<Rightarrow> py_exception + (fetched \<times> log_line)" where
  "handle_request_exception url e =
     (case e of
        HTTPError r \<Rightarrow>
          Inr ((None, StatusCode (resp_status r), Map.empty, 0),
               LogFailed url (StatusCode (resp_status r)) e)
      | RequestException None msg \<Rightarrow>
          Inr ((None, StatusStr (py ''N/A''), Map.empty, 0),
               LogFailed url (StatusStr (py ''N/A'')) e)
      | RequestException (Some r) msg \<Rightarrow>
          Inr ((None, StatusCode (resp_status r), Map.empty, 0),
               LogFailed url (StatusCode (resp_status r)) e)
      | NotRequestException x \<Rightarrow> Inl x)"

definition fetch_website_content ::
    "pystr \<Rightarrow> get_outcome \<Rightarrow> real \<Rightarrow> real \<Rightarrow> py_exception + (fetched \<times> log_line)" where
  "fetch_website_content url outcome start finish =
     (case outcome of
        Raises e \<Rightarrow> handle_request_exception url e
      | Responds r \<Rightarrow>
          (case raise_for_status r of
             Some e \<Rightarrow> handle_request_exception url e
           | None \<Rightarrow>
               (let load_time = finish - start
                in Inr ((Some (resp_text r), StatusCode (resp_status r), resp_headers r, load_time),
                        LogFetched url (resp_status r) load_time))))"

section \<open>The extractor's helpers\<close>

text \<open>Python truthiness of \<open>tag.get(key)\<close>: present and not the empty string.\<close>

definition truthy :: "pystr option \<Rightarrow> bool" where
  "truthy v \<longleftrightarrow> (case v of None \<Rightarrow> False | Some s \<Rightarrow> s \<noteq> [])"

text \<open>
  \<^verbatim>\<open>
  def extract_json_ld(soup):
      data = []
      for script in soup.find_all("script", type="application/ld+json"):
          try:
              d = json.loads(script.string)
              data.append(d)
          except Exception:
              continue
      return data if data else ["Not found"]
  \<close>
  \<open>json.loads(None)\<close> raises \<open>TypeError\<close>, which the handler catches like any other.
\<close>

fun json_ld_loop :: "pylib \<Rightarrow> node list \<Rightarrow> pyval list \<Rightarrow> pyval list" where
  "json_ld_loop L [] data = data"
| "json_ld_loop L (script # rest) data =
     (case node_string script of
        None \<Rightarrow> json_ld_loop L rest data
      | Some s \<Rightarrow>
          (case json_loads L s of
             Inl e \<Rightarrow> json_ld_loop L rest data
           | Inr d \<Rightarrow> json_ld_loop L rest (data @ [d])))"

definition extract_json_ld :: "pylib \<Rightarrow> node list \<Rightarrow> pyval list" where
  "extract_json_ld L soup =
     (let data = json_ld_loop L
                   (find_all soup (py ''script'') (attr_is (py ''type'') (py ''application/ld+json''))) []
      in if data \<noteq> [] then data else [PStr (py ''Not found'')])"

text \<open>
  \<^verbatim>\<open>
  def extract_open_graph(soup):
      og = {}
      for tag in soup.find_all("meta"):
          prop = tag.get("property") or tag.get("name") or ""
          if prop.startswith("og:") or prop.startswith("twitter:"):
              og[prop] = tag.get("content", "Not found")
      return og if og else {"None": "Not found"}
  \<close>
  The dictionary is an association list in insertion order; assigning to a key that is
  already there replaces its value in place.
\<close>

definition og_prop :: "node \<Rightarrow> pystr" where
  "og_prop t =
     (if truthy (tag_get t (py ''property'')) then the (tag_get t (py ''property''))
      else if truthy (tag_get t (py ''name'')) then the (tag_get t (py ''name''))
      else [])"

fun open_graph_loop :: "node list \<Rightarrow> (pystr \<times> pystr) list \<Rightarrow> (pystr \<times> pystr) list" where
  "open_graph_loop [] og = og"
| "open_graph_loop (t # rest) og =
     (let prop = og_prop t
      in if startswith prop (py ''og:'') \<or> startswith prop (py ''twitter:'')
         then open_graph_loop rest
                (AList.update prop
                   (case tag_get t (py ''content'') of None \<Rightarrow> py ''Not found'' | Some c \<Rightarrow> c) og)
         else open_graph_loop rest og)"

definition extract_open_graph :: "node list \<Rightarrow> (pystr \<times> pystr) list" where
  "extract_open_graph soup =
     (let og = open_graph_loop (find_all soup (py ''meta'') any_tag) []
      in if og \<noteq> [] then og else [(py ''None'', py ''Not found'')])"

text \<open>
  \<^verbatim>\<open>
  def find_favicons(soup, base_url):
      icons = []
      for link in soup.find_all("link", rel=lambda x: x and "icon" in x.lower()):
          href = link.get("href")
          if href:
              icons.append(urljoin(base_url, href))
      return icons if icons else ["Not found"]
  \<close>
\<close>

fun favicons_loop :: "pylib \<Rightarrow> pystr \<Rightarrow> node list \<Rightarrow> pystr list \<Rightarrow> py_exception + pystr list" where
  "favicons_loop L base_url [] icons = Inr icons"
| "favicons_loop L base_url (link # rest) icons =
     (case tag_get link (py ''href'') of
        None \<Rightarrow> favicons_loop L base_url rest icons
      | Some href \<Rightarrow>
          (if href = [] then favicons_loop L base_url rest icons
           else (case urljoin L base_url href of
                   Inl e \<Rightarrow> Inl e
                 | Inr u \<Rightarrow> favicons_loop L base_url rest (icons @ [u]))))"

definition find_favicons :: "pylib \<Rightarrow> node list \<Rightarrow> pystr \<Rightarrow> py_exception + pystr list" where
  "find_favicons L soup base_url =
     (case favicons_loop L base_url
             (find_all soup (py ''link'')
                (rel_matches (\<lambda>x. x \<noteq> [] \<and> contains (py ''icon'') (lower L x)))) [] of
        Inl e \<Rightarrow> Inl e
      | Inr icons \<Rightarrow> Inr (if icons \<noteq> [] then icons else [py ''Not found'']))"

text \<open>
  \<^verbatim>\<open>
  def get_main_images(soup, base_url, max_images=5):
      images = []
      for img in soup.find_all("img", src=True):
          src = img.get("src")
          if src:
              images.append(urljoin(base_url, src))
          if len(images) >= max_images:
              break
      return images if images else ["Not found"]
  \<close>
\<close>

fun main_images_loop ::
    "pylib \<Rightarrow> pystr \<Rightarrow> nat \<Rightarrow> node list \<Rightarrow> pystr list \<Rightarrow> py_exception + pystr list" where
  "main_images_loop L base_url max_images [] images = Inr images"
| "main_images_loop L base_url max_images (img # rest) images =
     (case (if truthy (tag_get img (py ''src''))
            then (case urljoin L base_url (the (tag_get img (py ''src''))) of
                    Inl e \<Rightarrow> Inl e
                  | Inr u \<Rightarrow> Inr (images @ [u]))
            else Inr images) of
        Inl e \<Rightarrow> Inl e
      | Inr images' \<Rightarrow>
          (if length images' \<ge> max_images then Inr images'
           else main_images_loop L base_url max_images rest images'))"

definition get_main_images :: "pylib \<Rightarrow> node list \<Rightarrow> pystr \<Rightarrow> py_exception + pystr list" where
  "get_main_images L soup base_url =
     (case main_images_loop L base_url 5 (find_all soup (py ''img'') (attr_present (py ''src''))) [] of
        Inl e \<Rightarrow> Inl e
      | Inr images \<Rightarrow> Inr (if images \<noteq> [] then images else [py ''Not found'']))"

text \<open>
  \<^verbatim>\<open>
  def get_canonical_url(soup, base_url):
      link = soup.find("link", rel="canonical")
      if link and link.get("href"):
          return urljoin(base_url, link.get("href"))
      return "Not found"

  def get_robots_meta(soup):
      tag = soup.find("meta", attrs={"name": "robots"})
      if tag and tag.get("content"):
          return tag.get("content").strip()
      return "Not found"
  \<close>
\<close>

definition get_canonical_url :: "pylib \<Rightarrow> node list \<Rightarrow> pystr \<Rightarrow> py_exception + pystr" where
  "get_canonical_url L soup base_url =
     (case find_tag soup (py ''link'') (rel_matches (\<lambda>x. x = py ''canonical'')) of
        None \<Rightarrow> Inr (py ''Not found'')
      | Some link \<Rightarrow>
          (if truthy (tag_get link (py ''href''))
           then urljoin L base_url (the (tag_get link (py ''href'')))
           else Inr (py ''Not found'')))"

definition get_robots_meta :: "node list \<Rightarrow> pystr" where
  "get_robots_meta soup =
     (case find_tag soup (py ''meta'') (attr_is (py ''name'') (py ''robots'')) of
        None \<Rightarrow> py ''Not found''
      | Some t \<Rightarrow>
          (if truthy (tag_get t (py ''content''))
           then strip (the (tag_get t (py ''content'')))
           else py ''Not found''))"

text \<open>
  \<^verbatim>\<open>
  def count_links(soup, base_url):
      internal = set()
      external = set()
      parsed_base = urlparse(base_url)
      base_domain = parsed_base.netloc.lower()
      for a in soup.find_all("a", href=True):
          href = a.get("href").strip()
          if href.startswith("#") or href.lower().startswith("javascript:"):
              continue
          full_url = urljoin(base_url, href)
          parsed_url = urlparse(full_url)
          domain = parsed_url.netloc.lower()
          if domain == base_domain:
              internal.add(full_url)
          else:
              external.add(full_url)
      return list(internal), list(external)
  \<close>
  A set is held as the list of its elements, each once; \<open>set_add\<close> is \<open>s.add(x)\<close>.
  \<open>list(s)\<close> enumerates the set in an order Python does not specify: \<open>set_order\<close>.
\<close>

definition set_add :: "'a \<Rightarrow> 'a list \<Rightarrow> 'a list" where
  "set_add x xs = (if x \<in> set xs then xs else xs @ [x])"

fun count_links_loop ::
    "pylib \<Rightarrow> pystr \<Rightarrow> pystr \<Rightarrow> node list \<Rightarrow> pystr list \<Rightarrow> pystr list
       \<Rightarrow> py_exception + (pystr list \<times> pystr list)" where
  "count_links_loop L base_url base_domain [] internal external = Inr (internal, external)"
| "count_links_loop L base_url base_domain (a # rest) internal external =
     (case tag_get a (py ''href'') of
        None \<Rightarrow> Inl AttributeError
      | Some h \<Rightarrow>
          (let href = strip h
           in if startswith href (py ''#'') \<or> startswith (lower L href) (py ''javascript:'')
              then count_links_loop L base_url base_domain rest internal external
              else (case urljoin L base_url href of
                      Inl e \<Rightarrow> Inl e
                    | Inr full_url \<Rightarrow>
                        (case urlparse_netloc L full_url of
                           Inl e \<Rightarrow> Inl e
                         | Inr netloc \<Rightarrow>
                             (if lower L netloc = base_domain
                              then count_links_loop L base_url base_domain rest
                                     (set_add full_url internal) external
                              else count_links_loop L base_url base_domain rest
                                     internal (set_add full_url external))))))"

definition count_links ::
    "pylib \<Rightarrow> node list \<Rightarrow> pystr \<Rightarrow> py_exception + (pystr list \<times> pystr list)" where
  "count_links L soup base_url =
     (case urlparse_netloc L base_url of
        Inl e \<Rightarrow> Inl e
      | Inr netloc \<Rightarrow>
          (case count_links_loop L base_url (lower L netloc)
                  (find_all soup (py ''a'') (attr_present (py ''href''))) [] [] of
             Inl e \<Rightarrow> Inl e
           | Inr (internal, external) \<Rightarrow> Inr (set_order L internal, set_order L external)))"

section \<open>The extractor\<close>

record page_record =
  title :: pystr
  meta_description :: pystr
  meta_keywords :: pystr
  headlines :: "pystr list"
  subheadlines :: "pystr list"
  summaries :: "pystr list"
  charset :: pystr
  lang :: pystr
  json_ld :: "pyval list"
  open_graph :: "(pystr \<times> pystr) list"
  favicons :: "pystr list"
  main_images :: "pystr list"
  canonical_url :: pystr
  robots_meta :: pystr
  internal_links_count :: nat
  external_links_count :: nat
  internal_links_sample :: "pystr list"
  external_links_sample :: "pystr list"
  last_modified :: pystr
  content_length :: pystr
  server :: pystr
  load_time :: real

text \<open>
  \<^verbatim>\<open>
  title = soup.title.string.strip() if soup.title and soup.title.string else "Title not found"
  \<close>
  \<open>soup.title\<close> is \<open>soup.find("title")\<close>; a string is true when it is not empty.
\<close>

definition scrape_title :: "node list \<Rightarrow> pystr" where
  "scrape_title soup =
     (case find_tag soup (py ''title'') any_tag of
        None \<Rightarrow> py ''Title not found''
      | Some t \<Rightarrow>
          (if truthy (node_string t) then strip (the (node_string t))
           else py ''Title not found''))"

text \<open>
  \<^verbatim>\<open>
  meta_desc_tag = soup.find("meta", attrs={"name": "description"})
  meta_desc = meta_desc_tag.get("content", "").strip() if meta_desc_tag else "Meta description not found"
  \<close>
  and the same for \<open>keywords\<close>.
\<close>

definition scrape_meta :: "node list \<Rightarrow> pystr \<Rightarrow> pystr \<Rightarrow> pystr" where
  "scrape_meta soup nm not_found =
     (case find_tag soup (py ''meta'') (attr_is (py ''name'') nm) of
        None \<Rightarrow> not_found
      | Some t \<Rightarrow> strip (case tag_get t (py ''content'') of None \<Rightarrow> [] | Some c \<Rightarrow> c))"

text \<open>
  \<^verbatim>\<open>
  h1_tags = [h1.get_text(strip=True) for h1 in soup.find_all("h1") if h1.get_text(strip=True)]
  headlines = h1_tags[:5] or ["No H1 tags found"]
  \<close>
  and the same for \<open>h2\<close>.
\<close>

definition heading_texts :: "node list \<Rightarrow> pystr \<Rightarrow> pystr list" where
  "heading_texts soup nm =
     map get_text_strip (filter (\<lambda>h. get_text_strip h \<noteq> []) (find_all soup nm any_tag))"

text \<open>
  \<^verbatim>\<open>
  paragraphs = [
      p.get_text(strip=True) for p in soup.find_all("p")
      if p.get_text(strip=True) and len(p.get_text(strip=True)) > 50
  ]
  summaries = paragraphs[:5] or ["No meaningful paragraphs found"]
  \<close>
\<close>

definition paragraphs :: "node list \<Rightarrow> pystr list" where
  "paragraphs soup =
     map get_text_strip
       (filter (\<lambda>p. get_text_strip p \<noteq> [] \<and> length (get_text_strip p) > 50)
          (find_all soup (py ''p'') any_tag))"

definition scrape_summaries :: "node list \<Rightarrow> pystr list" where
  "scrape_summaries soup = first5_or (paragraphs soup) (py ''No meaningful paragraphs found'')"

text \<open>
  \<^verbatim>\<open>
  charset = None
  charset_tag = soup.find("meta", charset=True)
  if charset_tag:
      charset = charset_tag.get("charset", None)
  else:
      content_type = soup.find("meta", attrs={"http-equiv": "Content-Type"})
      if content_type and "charset=" in content_type.get("content", ""):
          charset = content_type.get("content").split("charset=")[-1]
  lang = soup.html.attrs.get("lang") if soup.html else None
  \<close>
\<close>

definition scrape_charset :: "node list \<Rightarrow> pystr option" where
  "scrape_charset soup =
     (case find_tag soup (py ''meta'') (attr_present (py ''charset'')) of
        Some charset_tag \<Rightarrow> tag_get charset_tag (py ''charset'')
      | None \<Rightarrow>
          (case find_tag soup (py ''meta'') (attr_is (py ''http-equiv'') (py ''Content-Type'')) of
             None \<Rightarrow> None
           | Some content_type \<Rightarrow>
               (case tag_get content_type (py ''content'') of
                  None \<Rightarrow> None
                | Some c \<Rightarrow>
                    (if contains (py ''charset='') c
                     then Some (split_last (py ''charset='') [] c)
                     else None))))"

definition scrape_lang :: "node list \<Rightarrow> pystr option" where
  "scrape_lang soup =
     (case find_tag soup (py ''html'') any_tag of
        None \<Rightarrow> None
      | Some t \<Rightarrow> tag_get t (py ''lang''))"

text \<open>\<open>x or "Unknown"\<close> for an optional string, and \<open>headers.get(key, default)\<close>.\<close>

definition or_unknown :: "pystr option \<Rightarrow> pystr" where
  "or_unknown v = (if truthy v then the v else py ''Unknown'')"

definition header_get :: "(pystr \<Rightarrow> pystr option) \<Rightarrow> pystr \<Rightarrow> pystr \<Rightarrow> pystr" where
  "header_get hs k d = (case hs k of None \<Rightarrow> d | Some v \<Rightarrow> v)"

text \<open>
  \<open>smart_scrape(html, base_url, response_headers, load_time)\<close>.  The statements run in
  the order of the source; an exception raised by the parser, by \<open>find_favicons\<close>, by
  \<open>get_main_images\<close>, by \<open>get_canonical_url\<close> or by \<open>count_links\<close> leaves the function,
  since none of them is inside a \<open>try\<close>.
\<close>

definition smart_scrape ::
    "pylib \<Rightarrow> pystr \<Rightarrow> pystr \<Rightarrow> (pystr \<Rightarrow> pystr option) \<Rightarrow> real \<Rightarrow> py_exception + page_record" where
  "smart_scrape L html base_url response_headers lt =
     (case html_parser L html of
        Inl e \<Rightarrow> Inl e
      | Inr soup \<Rightarrow>
     (case find_favicons L soup base_url of
        Inl e \<Rightarrow> Inl e
      | Inr favs \<Rightarrow>
     (case get_main_images L soup base_url of
        Inl e \<Rightarrow> Inl e
      | Inr imgs \<Rightarrow>
     (case get_canonical_url L soup base_url of
        Inl e \<Rightarrow> Inl e
      | Inr canonical \<Rightarrow>
     (case count_links L soup base_url of
        Inl e \<Rightarrow> Inl e
      | Inr (internal_links, external_links) \<Rightarrow>
          Inr \<lparr> title = scrape_title soup,
                meta_description =
                  scrape_meta soup (py ''description'') (py ''Meta description not found''),
                meta_keywords =
                  scrape_meta soup (py ''keywords'') (py ''Meta keywords not found''),
                headlines = first5_or (heading_texts soup (py ''h1'')) (py ''No H1 tags found''),
                subheadlines = first5_or (heading_texts soup (py ''h2'')) (py ''No H2 tags found''),
                summaries = scrape_summaries soup,
                charset = or_unknown (scrape_charset soup),
                lang = or_unknown (scrape_lang soup),
                json_ld = extract_json_ld L soup,
                open_graph = extract_open_graph soup,
                favicons = favs,
                main_images = imgs,
                canonical_url = canonical,
                robots_meta = get_robots_meta soup,
                internal_links_count = length internal_links,
                external_links_count = length external_links,
                internal_links_sample = first5_or internal_links (py ''None''),
                external_links_sample = first5_or external_links (py ''None''),
                last_modified = header_get response_headers (py ''Last-Modified'') (py ''Not found''),
                content_length = header_get response_headers (py ''Content-Length'') (py ''Unknown''),
                server = header_get response_headers (py ''Server'') (py ''Unknown''),
                load_time = lt \<rparr>)))))"

section \<open>The formatter's truncation\<close>

text \<open>
  \<^verbatim>\<open>
  def safe_truncate(text: str, max_len=700) -> str:
      if len(text) > max_len:
          return text[:max_len] + "..."      (one character, U+2026)
      return text
  \<close>
  The marker is the single code point 8230 (HORIZONTAL ELLIPSIS).
\<close>

definition ellipsis :: pystr where
  "ellipsis = [8230]"

definition safe_truncate :: "pystr \<Rightarrow> nat \<Rightarrow> pystr" where
  "safe_truncate txt max_len =
     (if length txt > max_len then take max_len txt @ ellipsis else txt)"

section \<open>The report\<close>

text \<open>
  \<^verbatim>\<open>
  def send_discord_embed(webhook_url, domain, scraped_data, url, status_code):
      status_text = f"{status_code} OK" if status_code == 200 else f"Error: {status_code}"
      color = 0x2ecc71 if status_code == 200 else 0xe74c3c
      fields = [ {"name": "Status", "value": status_text, "inline": True}, ...
        {"name": "Internal Links Sample",
         "value": safe_truncate("\n".join(scraped_data['internal_links_sample']), 700), ...},
        {"name": "External Links Sample",
         "value": safe_truncate("\n".join(scraped_data['external_links_sample']), 700), ...},
        ... ]
  \<close>
  Of the embed the model keeps the domain and URL, the colour, the status text and the
  values of the two link-sample fields.  \<open>0x2ecc71 = 3066993\<close> and \<open>0xe74c3c = 15158332\<close>.
\<close>

fun str_status :: "status \<Rightarrow> pystr" where
  "str_status (StatusCode i) = str_int i"
| "str_status (StatusStr s) = s"

record embed =
  embed_domain :: pystr
  embed_url :: pystr
  embed_color :: nat
  embed_status :: pystr
  embed_internal_sample :: pystr
  embed_external_sample :: pystr

definition send_discord_embed :: "pystr \<Rightarrow> page_record \<Rightarrow> pystr \<Rightarrow> status \<Rightarrow> embed" where
  "send_discord_embed domain scraped_data url status_code =
     \<lparr> embed_domain = domain,
       embed_url = url,
       embed_color = (if status_code = StatusCode 200 then 3066993 else 15158332),
       embed_status =
         (if status_code = StatusCode 200 then str_status status_code @ py '' OK''
          else py ''Error: '' @ str_status status_code),
       embed_internal_sample =
         safe_truncate (join_lines (internal_links_sample scraped_data)) 700,
       embed_external_sample =
         safe_truncate (join_lines (external_links_sample scraped_data)) 700 \<rparr>"

section \<open>The orchestrator\<close>

text \<open>
  The record \<open>main\<close> builds when the fetch gave no body:
  \<^verbatim>\<open>
  scraped_data = {
      "title": "N/A", "meta_description": "N/A", "meta_keywords": "N/A",
      "headlines": ["Failed to retrieve content."],
      "subheadlines": ["Failed to retrieve content."],
      "summaries": ["Failed to retrieve content."],
      "charset": "N/A", "lang": "N/A", "json_ld": ["N/A"],
      "open_graph": {"N/A": "N/A"}, "favicons": ["N/A"], "main_images": ["N/A"],
      "canonical_url": "N/A", "robots_meta": "N/A",
      "internal_links_count": 0, "external_links_count": 0,
      "internal_links_sample": [], "external_links_sample": [],
      "last_modified": "N/A", "content_length": "N/A", "server": "N/A", "load_time": 0,
  }
  \<close>
\<close>

definition failure_record :: page_record where
  "failure_record =
     \<lparr> title = py ''N/A'',
       meta_description = py ''N/A'',
       meta_keywords = py ''N/A'',
       headlines = [py ''Failed to retrieve content.''],
       subheadlines = [py ''Failed to retrieve content.''],
       summaries = [py ''Failed to retrieve content.''],
       charset = py ''N/A'',
       lang = py ''N/A'',
       json_ld = [PStr (py ''N/A'')],
       open_graph = [(py ''N/A'', py ''N/A'')],
       favicons = [py ''N/A''],
       main_images = [py ''N/A''],
       canonical_url = py ''N/A'',
       robots_meta = py ''N/A'',
       internal_links_count = 0,
       external_links_count = 0,
       internal_links_sample = [],
       external_links_sample = [],
       last_modified = py ''N/A'',
       content_length = py ''N/A'',
       server = py ''N/A'',
       load_time = 0 \<rparr>"

text \<open>
  The body of \<open>main\<close>'s loop for one URL that passed \<open>is_valid_url\<close>:
  \<^verbatim>\<open>
  html, status_code, response_headers, load_time = fetch_website_content(url)
  if not html:
      scraped_data = { ... }
  else:
      scraped_data = smart_scrape(html, url, response_headers, load_time)
  domain = urlparse(url).netloc
  send_discord_embed(DISCORD_WEBHOOK_URL, domain, scraped_data, url, status_code)
  \<close>
  \<open>not html\<close> holds for \<open>None\<close> and for the empty string.  The result is the record given
  to the formatter, the embed and the fetcher's log line, or the exception that leaves
  the loop.
\<close>

definition main_url ::
    "pylib \<Rightarrow> pystr \<Rightarrow> get_outcome \<Rightarrow> real \<Rightarrow> real
       \<Rightarrow> py_exception + (page_record \<times> embed \<times> log_line)" where
  "main_url L url outcome start finish =
     (case fetch_website_content url outcome start finish of
        Inl e \<Rightarrow> Inl e
      | Inr ((html, status_code, response_headers, lt), logged) \<Rightarrow>
          (case (if \<not> truthy html then Inr failure_record
                 else smart_scrape L (the html) url response_headers lt) of
             Inl e \<Rightarrow> Inl e
           | Inr scraped_data \<Rightarrow>
               (case urlparse_netloc L url of
                  Inl e \<Rightarrow> Inl e
                | Inr domain \<Rightarrow>
                    Inr (scraped_data,
                         send_discord_embed domain scraped_data url status_code,
                         logged))))"

section \<open>The retry policy\<close>












section \<open>A library instance for the worked examples\<close>

text \<open>
  The examples below run the model on concrete pages.  For that the library parameters
  are instantiated by tables that give, for the few inputs the examples use, what
  CPython and \<open>bs4\<close> return there:
  \<^item> \<open>urljoin("http://a.com/x", u)\<close> is \<open>u\<close> for the absolute URLs \<open>http://a.com/y\<close>,
    \<open>https://A.COM/z\<close>, \<open>http://b.com/w\<close> and \<open>http://a.com:80/y\<close>, and raises
    \<open>ValueError\<close> ("Invalid IPv6 URL") for \<open>//[\<close>;
  \<^item> the \<open>netloc\<close> of those URLs is \<open>a.com\<close>, \<open>A.COM\<close>, \<open>b.com\<close> and \<open>a.com:80\<close>;
  \<^item> \<open>str.lower\<close> on ASCII text maps \<open>A\<close>..\<open>Z\<close> to \<open>a\<close>..\<open>z\<close>;
  \<^item> \<open>json.loads("{}")\<close> is the empty dictionary and \<open>json.loads("{")\<close> raises;
  \<^item> \<open>html.parser\<close> turns the four pages below into the trees given (\<open>bs4\<close> keeps a
    string that is ASCII whitespace only as one space).
  Outside these inputs the tables raise; no statement depends on that.
\<close>

definition example_base :: pystr where
  "example_base = py ''http://a.com/x''"

definition page_bad_href :: pystr where
  "page_bad_href = py ''<a href=\"//[\">x</a>''"

definition soup_bad_href :: "node list" where
  "soup_bad_href = [Tag (py ''a'') [(py ''href'', py ''//['')] [NavigableString (py ''x'')]]"

definition page_text :: pystr where
  "page_text = py ''<title> Hi </title><p>'' @ replicate 50 97 @ py ''</p><p>''
                 @ replicate 51 98 @ py ''</p>''"

definition soup_text :: "node list" where
  "soup_text =
     [Tag (py ''title'') [] [NavigableString (py '' Hi '')],
      Tag (py ''p'') [] [NavigableString (replicate 50 97)],
      Tag (py ''p'') [] [NavigableString (replicate 51 98)]]"

definition page_sparse :: pystr where
  "page_sparse = py ''<title>   </title><p>short</p>''"

definition soup_sparse :: "node list" where
  "soup_sparse =
     [Tag (py ''title'') [] [NavigableString (py '' '')],
      Tag (py ''p'') [] [NavigableString (py ''short'')]]"

text \<open>
  A paragraph made of two text fragments: \<open>a\<close> 25 times and a space, then a \<open>b\<close> element
  holding \<open>b\<close> 25 times.
\<close>

definition para_fragments :: node where
  "para_fragments =
     Tag (py ''p'') []
       [NavigableString (replicate 25 97 @ [32]),
        Tag (py ''b'') [] [NavigableString (replicate 25 98)]]"

definition page_fragments :: pystr where
  "page_fragments = py ''<p>'' @ replicate 25 97 @ py '' <b>'' @ replicate 25 98 @ py ''</b></p>''"

definition soup_fragments :: "node list" where
  "soup_fragments = [para_fragments]"

text \<open>
  The anchors of the link-partition example of the specification (a page at
  \<open>http://a.com/x\<close>), and a page whose only anchor has an empty \<open>href\<close>.
\<close>

definition anchor :: "pystr \<Rightarrow> node" where
  "anchor href = Tag (py ''a'') [(py ''href'', href)] []"

definition soup_links :: "node list" where
  "soup_links =
     [anchor (py ''http://a.com/y''), anchor (py ''https://A.COM/z''),
      anchor (py ''http://b.com/w''), anchor (py ''#frag''),
      anchor (py ''javascript:void(0)'')]"

definition soup_empty_href :: "node list" where
  "soup_empty_href = [anchor []]"

text \<open>A page whose only anchor names the base URL's host with its default port.\<close>

definition soup_port :: "node list" where
  "soup_port = [anchor (py ''http://a.com:80/y'')]"

definition ascii_lower :: "pystr \<Rightarrow> pystr" where
  "ascii_lower s = map (\<lambda>c. if 65 \<le> c \<and> c \<le> 90 then c + 32 else c) s"

definition example_lib :: pylib where
  "example_lib =
     \<lparr> html_parser =
         (\<lambda>h. if h = page_text then Inr soup_text
              else if h = page_sparse then Inr soup_sparse
              else if h = page_fragments then Inr soup_fragments
              else if h = page_bad_href then Inr soup_bad_href
              else Inl ParserRejectedMarkup),
       urljoin_rest =
         (\<lambda>base url.
            if base = example_base \<and>
               url \<in> set [py ''http://a.com/y'', py ''https://A.COM/z'', py ''http://b.com/w'',
                          py ''http://a.com:80/y'']
            then Inr url else Inl ValueError),
       urlparse_netloc =
         (\<lambda>u. case map_of
                    [(py ''http://a.com/x'', py ''a.com''),
                     (py ''http://a.com/y'', py ''a.com''),
                     (py ''https://A.COM/z'', py ''A.COM''),
                     (py ''http://b.com/w'', py ''b.com''),
                     (py ''http://a.com:80/y'', py ''a.com:80'')] u of
                None \<Rightarrow> Inl ValueError
              | Some n \<Rightarrow> Inr n),
       lower = ascii_lower,
       json_loads = (\<lambda>s. if s = py ''{}'' then Inr (PDict []) else Inl JSONDecodeError),
       set_order = (\<lambda>xs. xs) \<rparr>"

text \<open>A structured-data script element with the given text, and five responses.\<close>

definition ld_script :: "pystr \<Rightarrow> node" where
  "ld_script s = Tag (py ''script'') [(py ''type'', py ''application/ld+json'')] [OtherString s]"



definition empty_ok_response :: response where
  "empty_ok_response = \<lparr> resp_text = [], resp_status = 200, resp_headers = Map.empty \<rparr>"

definition empty_204_response :: response where
  "empty_204_response = \<lparr> resp_text = [], resp_status = 204, resp_headers = Map.empty \<rparr>"

definition page_text_response :: response where
  "page_text_response = \<lparr> resp_text = page_text, resp_status = 200, resp_headers = Map.empty \<rparr>"







section \<open>Notions used in the statements\<close>

text \<open>
  The hrefs that \<open>count_links\<close> resolves: of every anchor that has an \<open>href\<close> attribute,
  the attribute's text with surrounding whitespace removed, unless that text starts with
  \<open>#\<close> or, in lower case, with \<open>javascript:\<close>.
\<close>

definition anchor_href :: "node \<Rightarrow> pystr" where
  "anchor_href a = strip (case tag_get a (py ''href'') of None \<Rightarrow> [] | Some h \<Rightarrow> h)"

definition is_followed :: "pylib \<Rightarrow> pystr \<Rightarrow> bool" where
  "is_followed L href \<longleftrightarrow>
     \<not> startswith href (py ''#'') \<and> \<not> startswith (lower L href) (py ''javascript:'')"

definition followed_hrefs :: "pylib \<Rightarrow> node list \<Rightarrow> pystr list" where
  "followed_hrefs L soup =
     filter (is_followed L)
       (map anchor_href (find_all soup (py ''a'') (attr_present (py ''href''))))"

text \<open>
  A URL is internal when its \<open>netloc\<close> (the whole authority part: user information,
  host and port) and the base URL's \<open>netloc\<close> are equal after \<open>lower\<close>.
\<close>

definition link_is_internal :: "pylib \<Rightarrow> pystr \<Rightarrow> pystr \<Rightarrow> bool" where
  "link_is_internal L base_url u =
     (case urlparse_netloc L u of
        Inl e \<Rightarrow> False
      | Inr n \<Rightarrow>
          (case urlparse_netloc L base_url of
             Inl e \<Rightarrow> False
           | Inr d \<Rightarrow> lower L n = lower L d))"

text \<open>
  What Python guarantees of \<open>list(s)\<close>: it lists the elements of the set, each once.
\<close>

definition set_order_ok :: "pylib \<Rightarrow> bool" where
  "set_order_ok L \<longleftrightarrow>
     (\<forall>xs. distinct xs \<longrightarrow> distinct (set_order L xs) \<and> set (set_order L xs) = set xs)"

text \<open>
  What one structured-data block contributes on its own: the value \<open>json.loads\<close> gives
  for its \<open>.string\<close>, or nothing when the block has no single string or does not parse.
\<close>

definition ld_block_value :: "pylib \<Rightarrow> node \<Rightarrow> pyval option" where
  "ld_block_value L script =
     (case node_string script of
        None \<Rightarrow> None
      | Some s \<Rightarrow> (case json_loads L s of Inl e \<Rightarrow> None | Inr d \<Rightarrow> Some d))"

text \<open>
  The text content of an element, \<open>tag.get_text()\<close>: its ordinary strings concatenated
  as they are.
\<close>

fun plain_string :: "node \<Rightarrow> pystr" where
  "plain_string (NavigableString s) = s"
| "plain_string (OtherString s) = []"
| "plain_string (Tag n ats cs) = []"

definition text_content :: "node \<Rightarrow> pystr" where
  "text_content t = concat (map plain_string (descendants t))"



section \<open>Properties\<close>

subsection \<open>Strings\<close>

lemma py_eq_iff: "py a = py b \<longleftrightarrow> a = b"
  unfolding py_def by (simp add: inj_on_def)

subsection \<open>Truncation\<close>

text \<open>
  Claim C8.  With the limit 700 that the formatter uses, \<open>safe_truncate\<close> returns a string
  of at most 700 characters unchanged, and turns a longer one into its first 700
  characters followed by the one-character ellipsis marker (so 701 characters in all).
\<close>

theorem safe_truncate_700:
  "(length txt \<le> 700 \<longrightarrow> safe_truncate txt 700 = txt) \<and>
   (700 < length txt \<longrightarrow>
      safe_truncate txt 700 = take 700 txt @ ellipsis \<and>
      length (safe_truncate txt 700) = 701)"
  by (simp add: safe_truncate_def ellipsis_def)

theorem safe_truncate_700_witness:
  "safe_truncate (replicate 700 97) 700 = replicate 700 97 \<and>
   safe_truncate (replicate 701 97) 700 = replicate 700 97 @ [8230] \<and>
   length (safe_truncate (replicate 701 97) 700) = 701"
  using safe_truncate_700 [of "replicate 700 97"] safe_truncate_700 [of "replicate 701 97"]
  by (simp add: ellipsis_def)

subsection \<open>Structured data\<close>

lemma json_ld_loop_eq:
  "json_ld_loop L scripts data = data @ List.map_filter (ld_block_value L) scripts"
  by (induction scripts arbitrary: data)
     (auto simp: ld_block_value_def List.map_filter_simps split: option.splits sum.splits)

text \<open>
  Claim C9, as amended.  \<open>extract_json_ld\<close> handles every \<open>script\<close> element whose
  \<open>type\<close> is \<open>application/ld+json\<close> on its own: the result lists, in document order,
  the values of the blocks that parse, a block that does not parse is left out without
  any effect on the others, and when no block parses the result is the one-element
  sentinel list \<open>["Not found"]\<close>, with a capital N.
\<close>

theorem extract_json_ld_blocks:
  "extract_json_ld L soup =
     (let parsed = List.map_filter (ld_block_value L)
                     (find_all soup (py ''script'') (attr_is (py ''type'') (py ''application/ld+json'')))
      in if parsed = [] then [PStr (py ''Not found'')] else parsed)"
  by (simp add: extract_json_ld_def json_ld_loop_eq Let_def)

theorem extract_json_ld_blocks_witness:
  "extract_json_ld example_lib [ld_script (py ''{''), ld_script (py ''{}'')] = [PDict []] \<and>
   extract_json_ld example_lib [ld_script (py ''{'')] = [PStr (py ''Not found'')] \<and>
   extract_json_ld example_lib [] = [PStr (py ''Not found'')]"
  using extract_json_ld_blocks [of example_lib "[ld_script (py ''{''), ld_script (py ''{}'')]"]
        extract_json_ld_blocks [of example_lib "[ld_script (py ''{'')]"]
        extract_json_ld_blocks [of example_lib "[]"]
  by (simp add: ld_script_def find_all_def attr_is_def ld_block_value_def List.map_filter_simps
        example_lib_def py_eq_iff)

text \<open>
  Claim C9 as stated fails only in the spelling of the sentinel: with no block that
  parses, the result is \<open>["Not found"]\<close> and not \<open>["not found"]\<close>.
\<close>

theorem json_ld_sentinel_is_capitalised:
  "extract_json_ld example_lib [ld_script (py ''{'')] = [PStr (py ''Not found'')] \<and>
   extract_json_ld example_lib [ld_script (py ''{'')] \<noteq> [PStr (py ''not found'')]"
  by (simp add: extract_json_ld_def ld_script_def find_all_def attr_is_def example_lib_def
        py_eq_iff)

subsection \<open>The extractor's fields\<close>

lemma smart_scrape_fields:
  assumes "smart_scrape L html base_url hs lt = Inr r" and "html_parser L html = Inr soup"
  shows "title r = scrape_title soup" and "summaries r = scrape_summaries soup"
  using assms by (auto simp: smart_scrape_def split: sum.splits prod.splits)

lemma find_all_nil_iff:
  "find_all soup nm flt = [] \<longleftrightarrow> (\<forall>x \<in> set (descendants_of soup). \<not> (is_named nm x \<and> flt x))"
  by (simp add: find_all_def filter_empty_conv)

lemma find_tag_first:
  assumes "descendants_of soup = pre @ t # post" and "is_named nm t \<and> flt t"
    and "\<forall>x \<in> set pre. \<not> (is_named nm x \<and> flt x)"
  shows "find_tag soup nm flt = Some t"
proof -
  have "filter (\<lambda>t. is_named nm t \<and> flt t) pre = []"
    using assms(3) by (simp add: filter_empty_conv)
  then show ?thesis
    using assms(1,2) by (simp add: find_tag_def find_all_def)
qed

lemma find_tag_none:
  assumes "\<forall>x \<in> set (descendants_of soup). \<not> (is_named nm x \<and> flt x)"
  shows "find_tag soup nm flt = None"
  using assms by (simp add: find_tag_def find_all_def filter_empty_conv[THEN iffD2])

lemma strip_all_space: "list_all isspace s \<Longrightarrow> strip s = []"
  by (auto simp: strip_def list_all_iff dest: set_dropWhileD)

lemma take5_nil_iff: "take 5 xs = [] \<longleftrightarrow> xs = []"
  by (cases xs) simp_all

text \<open>Evaluating the model on the example pages.\<close>

lemmas eval_defs =
  smart_scrape_def find_favicons_def get_main_images_def get_canonical_url_def count_links_def
  find_all_def find_tag_def any_tag_def attr_present_def attr_is_def rel_matches_def
  scrape_title_def scrape_summaries_def paragraphs_def first5_or_def get_text_strip_def
  truthy_def strip_def isspace_def py_eq_iff

lemmas page_defs = page_text_def page_sparse_def page_fragments_def page_bad_href_def

lemma smart_scrape_page_text:
  "map_sum id (\<lambda>r. (title r, summaries r)) (smart_scrape example_lib page_text example_base Map.empty 0)
     = Inr (py ''Hi'', [replicate 51 98])"
  by (simp add: eval_defs example_lib_def example_base_def soup_text_def py_def)

lemma html_parser_page_text: "html_parser example_lib page_text = Inr soup_text"
  by (simp add: example_lib_def)

text \<open>
  How the title field follows from the parse tree: it is the sentinel when there is no
  \<open>title\<close> element; otherwise the first \<open>title\<close> element in document order decides, by
  its \<open>.string\<close>.
\<close>

lemma title_field:
  assumes "smart_scrape L html base_url hs lt = Inr r" and "html_parser L html = Inr soup"
  shows "((\<forall>x \<in> set (descendants_of soup). \<not> is_named (py ''title'') x) \<longrightarrow>
            title r = py ''Title not found'') \<and>
         (\<forall>pre t post.
            descendants_of soup = pre @ t # post \<and> is_named (py ''title'') t \<and>
            (\<forall>x \<in> set pre. \<not> is_named (py ''title'') x) \<longrightarrow>
            (case node_string t of
               None \<Rightarrow> title r = py ''Title not found''
             | Some s \<Rightarrow>
                 title r = (if s = [] then py ''Title not found'' else strip s) \<and>
                 (s \<noteq> [] \<and> list_all isspace s \<longrightarrow> title r = [])))"
proof -
  have t: "title r = scrape_title soup"
    using assms by (rule smart_scrape_fields)
  have a: "(\<forall>x \<in> set (descendants_of soup). \<not> is_named (py ''title'') x) \<longrightarrow>
            title r = py ''Title not found''"
  proof
    assume "\<forall>x \<in> set (descendants_of soup). \<not> is_named (py ''title'') x"
    then have "find_tag soup (py ''title'') any_tag = None"
      by (intro find_tag_none) simp
    then show "title r = py ''Title not found''"
      by (simp add: t scrape_title_def)
  qed
  have b: "(case node_string t of
               None \<Rightarrow> title r = py ''Title not found''
             | Some s \<Rightarrow>
                 title r = (if s = [] then py ''Title not found'' else strip s) \<and>
                 (s \<noteq> [] \<and> list_all isspace s \<longrightarrow> title r = []))"
    if h: "descendants_of soup = pre @ t # post \<and> is_named (py ''title'') t \<and>
            (\<forall>x \<in> set pre. \<not> is_named (py ''title'') x)" for pre t post
  proof -
    have "find_tag soup (py ''title'') any_tag = Some t"
      using h by (intro find_tag_first [of soup pre t post]) (auto simp: any_tag_def)
    then show ?thesis
      by (auto simp: t scrape_title_def truthy_def strip_all_space split: option.splits)
  qed
  from a b show ?thesis by blast
qed

text \<open>
  Claim C6 fails on a \<open>title\<close> element whose text is whitespace only.  The source tests
  \<open>soup.title.string\<close> for truth before it strips it, so such a title is not taken for
  empty: the title field is the empty string, not the sentinel.
\<close>

theorem blank_title_gives_empty_string:
  assumes "smart_scrape L html base_url hs lt = Inr r"
    and "html_parser L html = Inr soup"
    and "descendants_of soup = pre @ t # post"
    and "is_named (py ''title'') t"
    and "\<forall>x \<in> set pre. \<not> is_named (py ''title'') x"
    and "node_string t = Some s"
    and "s \<noteq> []"
    and "list_all isspace s"
  shows "title r = [] \<and> title r \<noteq> py ''Title not found''"
proof -
  have first: "find_tag soup (py ''title'') any_tag = Some t"
    using assms(3,4,5) by (intro find_tag_first [of soup pre t post]) (auto simp: any_tag_def)
  have "title r = scrape_title soup"
    using assms(1,2) by (rule smart_scrape_fields)
  then have "title r = strip s"
    using first assms(6,7) by (simp add: scrape_title_def truthy_def)
  then have "title r = []"
    using assms(8) by (simp add: strip_all_space)
  then show ?thesis
    by (simp add: py_def)
qed

lemma smart_scrape_page_sparse:
  "map_sum id (\<lambda>r. (title r, summaries r))
     (smart_scrape example_lib page_sparse example_base Map.empty 0)
     = Inr ([], [py ''No meaningful paragraphs found''])"
  by (simp add: eval_defs example_lib_def example_base_def soup_sparse_def page_defs py_def)

theorem blank_title_gives_empty_string_witness:
  "map_sum id title (smart_scrape example_lib page_sparse example_base Map.empty 0) = Inr [] \<and>
   [] \<noteq> py ''Title not found''"
proof -
  obtain r where r: "smart_scrape example_lib page_sparse example_base Map.empty 0 = Inr r"
    using smart_scrape_page_sparse
    by (cases "smart_scrape example_lib page_sparse example_base Map.empty 0") auto
  have p: "html_parser example_lib page_sparse = Inr soup_sparse"
    by (simp add: example_lib_def page_defs py_def)
  have d: "descendants_of soup_sparse =
             [] @ Tag (py ''title'') [] [NavigableString (py '' '')]
                # [NavigableString (py '' ''),
                   Tag (py ''p'') [] [NavigableString (py ''short'')],
                   NavigableString (py ''short'')]"
    by (simp add: soup_sparse_def)
  have "title r = [] \<and> title r \<noteq> py ''Title not found''"
    by (rule blank_title_gives_empty_string [where s = "py '' ''", OF r p d])
       (simp_all add: isspace_def py_def)
  then show ?thesis
    by (auto simp: r)
qed

text \<open>
  Claim C7, as amended.  The text of a paragraph is what \<open>get_text(strip=True)\<close> gives:
  every text fragment below the \<open>p\<close> element stripped on its own, and the results put
  together with nothing between them.  The summaries field holds the texts of the \<open>p\<close>
  elements whose text is longer than 50 characters, in document order, cut to the first
  five (and the sentinel entry when there is none).
\<close>

theorem summaries_field:
  assumes "smart_scrape L html base_url hs lt = Inr r" and "html_parser L html = Inr soup"
  shows "summaries r =
           (let q = map get_text_strip
                      (filter (\<lambda>p. 50 < length (get_text_strip p))
                         (find_all soup (py ''p'') any_tag))
            in if q = [] then [py ''No meaningful paragraphs found''] else take 5 q)"
proof -
  have f: "(\<lambda>p. get_text_strip p \<noteq> [] \<and> length (get_text_strip p) > 50)
             = (\<lambda>p. 50 < length (get_text_strip p))"
    by auto
  have "summaries r = scrape_summaries soup"
    using assms by (rule smart_scrape_fields)
  then show ?thesis
    by (simp add: scrape_summaries_def paragraphs_def first5_or_def f Let_def)
qed

theorem summaries_field_witness:
  "map_sum id summaries (smart_scrape example_lib page_text example_base Map.empty 0)
     = Inr [replicate 51 98]"
proof -
  obtain r where r: "smart_scrape example_lib page_text example_base Map.empty 0 = Inr r"
    using smart_scrape_page_text
    by (cases "smart_scrape example_lib page_text example_base Map.empty 0") auto
  have "summaries r = [replicate 51 98]"
    using summaries_field [OF r html_parser_page_text]
    by (simp add: soup_text_def find_all_def any_tag_def get_text_strip_def strip_def
          isspace_def py_eq_iff)
  then show ?thesis
    by (simp add: r)
qed

text \<open>
  Claim C7 as stated fails on a paragraph of several text fragments: the trimmed text of
  \<open>para_fragments\<close> has 51 characters, but its fragments stripped one by one make 50, so
  the paragraph is left out.
\<close>

theorem fragments_are_stripped_one_by_one:
  "length (strip (text_content para_fragments)) = 51 \<and>
   length (get_text_strip para_fragments) = 50 \<and>
   map_sum id summaries (smart_scrape example_lib page_fragments example_base Map.empty 0)
     = Inr [py ''No meaningful paragraphs found'']"
proof -
  have s: "strip (replicate 25 97 @ [32]) = replicate 25 97"
    by (simp add: strip_def isspace_def dropWhile_append3)
  have t: "text_content para_fragments = replicate 25 97 @ [32] @ replicate 25 98"
    by (simp add: text_content_def para_fragments_def)
  have "strip (replicate 25 97 @ [32] @ replicate 25 98) = replicate 25 97 @ [32] @ replicate 25 98"
    by (simp add: strip_def isspace_def numeral_eq_Suc)
  then have a: "length (strip (text_content para_fragments)) = 51"
    by (simp add: t)
  have "strip (replicate 25 98) = replicate 25 98"
    by (simp add: strip_def isspace_def numeral_eq_Suc)
  then have g: "get_text_strip para_fragments = replicate 25 97 @ replicate 25 98"
    by (simp add: get_text_strip_def para_fragments_def s)
  then have b: "length (get_text_strip para_fragments) = 50"
    by simp
  have c: "map_sum id summaries (smart_scrape example_lib page_fragments example_base Map.empty 0)
     = Inr [py ''No meaningful paragraphs found'']"
    by (simp add: eval_defs example_lib_def example_base_def soup_fragments_def
          para_fragments_def page_defs py_def)
  from a b c show ?thesis by blast
qed


subsection \<open>Link classification\<close>

lemma set_add_set: "set (set_add x xs) = insert x (set xs)"
  by (auto simp: set_add_def)

lemma set_add_distinct: "distinct xs \<Longrightarrow> distinct (set_add x xs)"
  by (simp add: set_add_def)

lemma count_links_loop_Inr:
  assumes "count_links_loop L b d as i e = Inr (i', e')"
  shows "(\<forall>h \<in> set (filter (is_followed L) (map anchor_href as)).
            \<exists>u n. urljoin L b h = Inr u \<and> urlparse_netloc L u = Inr n) \<and>
         set i' = set i \<union>
           {u. \<exists>h \<in> set (filter (is_followed L) (map anchor_href as)).
                 urljoin L b h = Inr u \<and> (\<exists>n. urlparse_netloc L u = Inr n \<and> lower L n = d)} \<and>
         set e' = set e \<union>
           {u. \<exists>h \<in> set (filter (is_followed L) (map anchor_href as)).
                 urljoin L b h = Inr u \<and> (\<exists>n. urlparse_netloc L u = Inr n \<and> lower L n \<noteq> d)} \<and>
         (distinct i \<longrightarrow> distinct i') \<and> (distinct e \<longrightarrow> distinct e')"
  using assms
proof (induction as arbitrary: i e)
  case Nil
  then show ?case by simp
next
  case (Cons a as)
  from Cons.prems obtain h where h: "tag_get a (py ''href'') = Some h"
    by (cases "tag_get a (py ''href'')") auto
  have ah: "anchor_href a = strip h"
    by (simp add: anchor_href_def h)
  show ?case
  proof (cases "is_followed L (strip h)")
    case False
    then have "count_links_loop L b d as i e = Inr (i', e')"
      using Cons.prems h by (auto simp: is_followed_def Let_def)
    from Cons.IH [OF this] False show ?thesis
      by (simp add: ah)
  next
    case True
    from True Cons.prems h obtain u where u: "urljoin L b (strip h) = Inr u"
      by (cases "urljoin L b (strip h)") (auto simp: is_followed_def Let_def)
    from True Cons.prems h u obtain n where n: "urlparse_netloc L u = Inr n"
      by (cases "urlparse_netloc L u") (auto simp: is_followed_def Let_def)
    show ?thesis
    proof (cases "lower L n = d")
      case internal: True
      then have "count_links_loop L b d as (set_add u i) e = Inr (i', e')"
        using Cons.prems h True u n by (auto simp: is_followed_def Let_def)
      from Cons.IH [OF this] True u n internal show ?thesis
        by (auto simp: ah set_add_set set_add_distinct)
    next
      case external: False
      then have "count_links_loop L b d as i (set_add u e) = Inr (i', e')"
        using Cons.prems h True u n by (auto simp: is_followed_def Let_def)
      from Cons.IH [OF this] True u n external show ?thesis
        by (auto simp: ah set_add_set set_add_distinct)
    qed
  qed
qed

text \<open>
  Claim C2, as amended.  Whenever \<open>count_links\<close> returns, its two collections have no
  duplicates and no common element, every followed href was resolved, and together the
  collections hold exactly the resolutions (\<open>urljoin\<close> against the base URL) of the
  followed hrefs: the stripped \<open>href\<close> of every anchor that has an \<open>href\<close> attribute,
  an empty one included, unless it starts with \<open>#\<close> or, in lower case, with
  \<open>javascript:\<close>.  A resolved link is in the internal collection exactly when its
  \<open>netloc\<close> (user information, host and port together) equals the base URL's \<open>netloc\<close>
  after \<open>lower\<close>, and in the external one otherwise.
\<close>

theorem count_links_partition:
  assumes "set_order_ok L"
    and "count_links L soup base_url = Inr (internal, external)"
  shows "distinct internal \<and> distinct external \<and> set internal \<inter> set external = {} \<and>
         (\<forall>h \<in> set (followed_hrefs L soup). \<exists>u. urljoin L base_url h = Inr u) \<and>
         set internal =
           {u. (\<exists>h \<in> set (followed_hrefs L soup). urljoin L base_url h = Inr u) \<and>
               link_is_internal L base_url u} \<and>
         set external =
           {u. (\<exists>h \<in> set (followed_hrefs L soup). urljoin L base_url h = Inr u) \<and>
               \<not> link_is_internal L base_url u}"
proof -
  from assms(2) obtain d where d: "urlparse_netloc L base_url = Inr d"
    by (cases "urlparse_netloc L base_url") (auto simp: count_links_def)
  from assms(2) d obtain i0 e0 where
    loop: "count_links_loop L base_url (lower L d)
             (find_all soup (py ''a'') (attr_present (py ''href''))) [] [] = Inr (i0, e0)"
    and io: "internal = set_order L i0" and eo: "external = set_order L e0"
    by (auto simp: count_links_def split: sum.splits prod.splits)
  note inv = count_links_loop_Inr [OF loop, folded followed_hrefs_def]
  have resolved: "\<forall>h \<in> set (followed_hrefs L soup).
                    \<exists>u n. urljoin L base_url h = Inr u \<and> urlparse_netloc L u = Inr n"
    using inv by blast
  have di: "distinct i0" and de: "distinct e0"
    using inv by simp_all
  have si: "set internal = set i0" and se: "set external = set e0"
    and dI: "distinct internal" and dE: "distinct external"
    using assms(1) di de by (simp_all add: set_order_ok_def io eo)
  have int: "link_is_internal L base_url u \<longleftrightarrow>
               (\<exists>n. urlparse_netloc L u = Inr n \<and> lower L n = lower L d)" for u
    by (cases "urlparse_netloc L u") (simp_all add: link_is_internal_def d)
  have i_eq: "set internal =
           {u. (\<exists>h \<in> set (followed_hrefs L soup). urljoin L base_url h = Inr u) \<and>
               link_is_internal L base_url u}"
    using inv by (auto simp: si int)
  have e_eq: "set external =
           {u. (\<exists>h \<in> set (followed_hrefs L soup). urljoin L base_url h = Inr u) \<and>
               \<not> link_is_internal L base_url u}"
  proof -
    have "set e0 = {u. \<exists>h \<in> set (followed_hrefs L soup). urljoin L base_url h = Inr u \<and>
                     (\<exists>n. urlparse_netloc L u = Inr n \<and> lower L n \<noteq> lower L d)}"
      using inv by simp
    also have "\<dots> = {u. (\<exists>h \<in> set (followed_hrefs L soup). urljoin L base_url h = Inr u) \<and>
               \<not> link_is_internal L base_url u}"
      using resolved by (fastforce simp: int)
    finally show ?thesis by (simp add: se)
  qed
  have disj: "set internal \<inter> set external = {}"
    unfolding i_eq e_eq by blast
  from dI dE disj resolved i_eq e_eq show ?thesis
    by blast
qed

lemma set_order_ok_example: "set_order_ok example_lib"
  by (simp add: set_order_ok_def example_lib_def)

lemmas link_eval_defs =
  count_links_def find_all_def attr_present_def urljoin_def strip_def isspace_def
  startswith_def set_add_def anchor_def example_lib_def example_base_def ascii_lower_def
  py_eq_iff

lemma count_links_soup_links:
  "count_links example_lib soup_links example_base =
     Inr ([py ''http://a.com/y'', py ''https://A.COM/z''], [py ''http://b.com/w''])"
  by (simp add: link_eval_defs soup_links_def py_def)

theorem count_links_partition_witness:
  "count_links example_lib soup_links example_base =
     Inr ([py ''http://a.com/y'', py ''https://A.COM/z''], [py ''http://b.com/w'']) \<and>
   set [py ''http://a.com/y'', py ''https://A.COM/z''] \<inter> set [py ''http://b.com/w''] = {} \<and>
   set [py ''http://a.com/y'', py ''https://A.COM/z''] =
     {u. (\<exists>h \<in> set (followed_hrefs example_lib soup_links).
            urljoin example_lib example_base h = Inr u) \<and>
         link_is_internal example_lib example_base u} \<and>
   set [py ''http://b.com/w''] =
     {u. (\<exists>h \<in> set (followed_hrefs example_lib soup_links).
            urljoin example_lib example_base h = Inr u) \<and>
         \<not> link_is_internal example_lib example_base u}"
  using count_links_partition [OF set_order_ok_example count_links_soup_links]
        count_links_soup_links
  by blast

text \<open>
  Claim C2 as stated fails twice.  On an anchor whose \<open>href\<close> is empty, the page has no
  non-empty href at all, yet the internal collection holds the base URL, to which
  \<open>urljoin\<close> resolves the empty href.  And a link to the base URL's own host with a port,
  \<open>http://a.com:80/y\<close> on \<open>http://a.com/x\<close>, is classed external, because the whole
  \<open>netloc\<close> is compared and not the host.
\<close>

theorem empty_href_counts_as_internal:
  "count_links example_lib soup_empty_href example_base = Inr ([example_base], []) \<and>
   filter (\<lambda>h. h \<noteq> [])
     (map anchor_href (find_all soup_empty_href (py ''a'') (attr_present (py ''href'')))) = [] \<and>
   count_links example_lib soup_port example_base = Inr ([], [py ''http://a.com:80/y''])"
  by (simp add: link_eval_defs soup_empty_href_def soup_port_def anchor_href_def py_def)

subsection \<open>Extraction is not total\<close>

text \<open>
  Claim C1 fails.  The calls of \<open>urljoin\<close> and \<open>urlparse\<close> are not inside a \<open>try\<close>, so
  when \<open>urljoin\<close> raises on a followed href of the page, \<open>smart_scrape\<close> raises instead
  of returning a record.  CPython's \<open>urljoin\<close> raises \<open>ValueError\<close> for the href \<open>//[\<close>,
  which is the example.
\<close>

theorem smart_scrape_raises_on_unresolvable_href:
  assumes "html_parser L html = Inr soup"
    and "h \<in> set (followed_hrefs L soup)"
    and "urljoin L base_url h = Inl e"
  shows "isl (smart_scrape L html base_url hs lt)"
proof -
  have "isl (count_links L soup base_url)"
  proof (cases "count_links L soup base_url")
    case (Inl x)
    then show ?thesis by simp
  next
    case (Inr p)
    obtain i0 e0 where p: "p = (i0, e0)" by (cases p)
    from Inr p obtain d i1 e1 where
      "count_links_loop L base_url d
             (find_all soup (py ''a'') (attr_present (py ''href''))) [] [] = Inr (i1, e1)"
      by (auto simp: count_links_def split: sum.splits prod.splits)
    from count_links_loop_Inr [OF this, folded followed_hrefs_def] assms(2,3)
    show ?thesis by fastforce
  qed
  then show ?thesis
    using assms(1) by (auto simp: smart_scrape_def isl_def split: sum.splits)
qed

theorem smart_scrape_raises_on_unresolvable_href_witness:
  "isl (smart_scrape example_lib page_bad_href example_base Map.empty 0) \<and>
   smart_scrape example_lib page_bad_href example_base Map.empty 0 = Inl ValueError"
proof -
  have p: "html_parser example_lib page_bad_href = Inr soup_bad_href"
    by (simp add: example_lib_def page_defs py_def)
  have f: "py ''//['' \<in> set (followed_hrefs example_lib soup_bad_href)"
    by (simp add: followed_hrefs_def soup_bad_href_def find_all_def attr_present_def
          anchor_href_def is_followed_def strip_def isspace_def startswith_def
          example_lib_def ascii_lower_def py_def)
  have u: "urljoin example_lib example_base (py ''//['') = Inl ValueError"
    by (simp add: urljoin_def example_lib_def example_base_def py_def)
  have v: "smart_scrape example_lib page_bad_href example_base Map.empty 0 = Inl ValueError"
    by (simp add: eval_defs link_eval_defs soup_bad_href_def page_defs py_def)
  from smart_scrape_raises_on_unresolvable_href [OF p f u] v show ?thesis
    by blast
qed

subsection \<open>The retry policy\<close>









subsection \<open>The fetcher\<close>




subsection \<open>The orchestrator\<close>

lemma str_int_200: "str_int 200 = py ''200''"
  by (simp add: str_int_def str_nat.simps py_def)

text \<open>
  Claim C10.  \<open>main\<close> routes on the body, not on the status: when the fetch completes
  (status outside 400..599) with an empty body, the extractor is not called and the
  record given to the formatter is the synthetic \<open>N/A\<close> record, whatever the parser would
  do; with a non-empty body the record is the extractor's.  Either way the embed is
  built from the real status code: the success colour and \<open>200 OK\<close> for 200, the error
  colour and \<open>Error: \<close> with the code for any other.  The claim's last words fail: two
  fields of the synthetic record, the link samples, are empty lists and not sentinels.
\<close>

theorem main_url_routes_on_body:
  assumes "urlparse_netloc L url = Inr domain"
    and "\<not> (400 \<le> resp_status r \<and> resp_status r < 600)"
  shows "(resp_text r = [] \<longrightarrow>
            main_url L url (Responds r) start finish =
              Inr (failure_record,
                   send_discord_embed domain failure_record url (StatusCode (resp_status r)),
                   LogFetched url (resp_status r) (finish - start))) \<and>
         (resp_text r \<noteq> [] \<longrightarrow>
            main_url L url (Responds r) start finish =
              map_sum id
                (\<lambda>d. (d, send_discord_embed domain d url (StatusCode (resp_status r)),
                      LogFetched url (resp_status r) (finish - start)))
                (smart_scrape L (resp_text r) url (resp_headers r) (finish - start))) \<and>
         embed_color (send_discord_embed domain d url (StatusCode (resp_status r))) =
           (if resp_status r = 200 then 3066993 else 15158332) \<and>
         embed_status (send_discord_embed domain d url (StatusCode (resp_status r))) =
           (if resp_status r = 200 then py ''200 OK''
            else py ''Error: '' @ str_int (resp_status r)) \<and>
         internal_links_sample failure_record = [] \<and>
         external_links_sample failure_record = []"
proof -
  have ok: "raise_for_status r = None"
    using assms(2) by (auto simp: raise_for_status_def)
  have fetched: "fetch_website_content url (Responds r) start finish =
          Inr ((Some (resp_text r), StatusCode (resp_status r), resp_headers r, finish - start),
               LogFetched url (resp_status r) (finish - start))"
    using ok by (simp add: fetch_website_content_def Let_def)
  have empty: "resp_text r = [] \<longrightarrow>
            main_url L url (Responds r) start finish =
              Inr (failure_record,
                   send_discord_embed domain failure_record url (StatusCode (resp_status r)),
                   LogFetched url (resp_status r) (finish - start))"
    using assms(1) by (simp add: main_url_def fetched truthy_def)
  have full: "resp_text r \<noteq> [] \<longrightarrow>
            main_url L url (Responds r) start finish =
              map_sum id
                (\<lambda>d. (d, send_discord_embed domain d url (StatusCode (resp_status r)),
                      LogFetched url (resp_status r) (finish - start)))
                (smart_scrape L (resp_text r) url (resp_headers r) (finish - start))"
    using assms(1)
    by (cases "smart_scrape L (resp_text r) url (resp_headers r) (finish - start)")
       (simp_all add: main_url_def fetched truthy_def)
  have colour: "embed_color (send_discord_embed domain d url (StatusCode (resp_status r))) =
           (if resp_status r = 200 then 3066993 else 15158332)"
    by (simp add: send_discord_embed_def)
  have status: "embed_status (send_discord_embed domain d url (StatusCode (resp_status r))) =
           (if resp_status r = 200 then py ''200 OK''
            else py ''Error: '' @ str_int (resp_status r))"
    by (simp add: send_discord_embed_def str_int_200 py_def)
  have samples: "internal_links_sample failure_record = [] \<and>
         external_links_sample failure_record = []"
    by (simp add: failure_record_def)
  from empty full colour status samples show ?thesis
    by blast
qed

lemma str_int_204: "str_int 204 = py ''204''"
  by (simp add: str_int_def str_nat.simps py_def)

lemma page_text_not_empty: "page_text \<noteq> []"
  by (simp add: page_text_def py_def)

theorem main_url_routes_on_body_witness:
  "main_url example_lib example_base (Responds empty_ok_response) 1 3 =
     Inr (failure_record,
          send_discord_embed (py ''a.com'') failure_record example_base (StatusCode 200),
          LogFetched example_base 200 2) \<and>
   embed_color (send_discord_embed (py ''a.com'') failure_record example_base (StatusCode 200))
     = 3066993 \<and>
   embed_status (send_discord_embed (py ''a.com'') failure_record example_base (StatusCode 200))
     = py ''200 OK'' \<and>
   embed_color (send_discord_embed (py ''a.com'') failure_record example_base (StatusCode 204))
     = 15158332 \<and>
   embed_status (send_discord_embed (py ''a.com'') failure_record example_base (StatusCode 204))
     = py ''Error: 204'' \<and>
   internal_links_sample failure_record = [] \<and>
   external_links_sample failure_record = [] \<and>
   map_sum id (\<lambda>(d, e, l). (title d, embed_color e))
     (main_url example_lib example_base (Responds page_text_response) 1 3)
     = Inr (py ''Hi'', 3066993)"
proof -
  have n: "urlparse_netloc example_lib example_base = Inr (py ''a.com'')"
    by (simp add: example_lib_def example_base_def)
  have s200: "\<not> (400 \<le> resp_status empty_ok_response \<and> resp_status empty_ok_response < 600)"
    by (simp add: empty_ok_response_def)
  have s204: "\<not> (400 \<le> resp_status empty_204_response \<and> resp_status empty_204_response < 600)"
    by (simp add: empty_204_response_def)
  have sp: "\<not> (400 \<le> resp_status page_text_response \<and> resp_status page_text_response < 600)"
    by (simp add: page_text_response_def)
  note a = main_url_routes_on_body [OF n s200, of 1 3 failure_record]
  note b = main_url_routes_on_body [OF n s204, of 1 3 failure_record]
  note c = main_url_routes_on_body [OF n sp, of 1 3 failure_record]
  have first: "main_url example_lib example_base (Responds empty_ok_response) 1 3 =
     Inr (failure_record,
          send_discord_embed (py ''a.com'') failure_record example_base (StatusCode 200),
          LogFetched example_base 200 2)"
    using a by (simp add: empty_ok_response_def)
  have look200: "embed_color (send_discord_embed (py ''a.com'') failure_record example_base (StatusCode 200))
     = 3066993 \<and>
   embed_status (send_discord_embed (py ''a.com'') failure_record example_base (StatusCode 200))
     = py ''200 OK''"
    using a by (simp add: empty_ok_response_def)
  have look204: "embed_color (send_discord_embed (py ''a.com'') failure_record example_base (StatusCode 204))
     = 15158332 \<and>
   embed_status (send_discord_embed (py ''a.com'') failure_record example_base (StatusCode 204))
     = py ''Error: 204''"
    using b by (simp add: empty_204_response_def str_int_204 py_def)
  have samples: "internal_links_sample failure_record = [] \<and>
   external_links_sample failure_record = []"
    using a by blast
  have "main_url example_lib example_base (Responds page_text_response) 1 3 =
          map_sum id
            (\<lambda>d. (d, send_discord_embed (py ''a.com'') d example_base (StatusCode 200),
                  LogFetched example_base 200 2))
            (smart_scrape example_lib page_text example_base Map.empty 2)"
    using c page_text_not_empty by (simp add: page_text_response_def)
  moreover have "map_sum id title (smart_scrape example_lib page_text example_base Map.empty 2)
                   = Inr (py ''Hi'')"
    by (simp add: eval_defs example_lib_def example_base_def soup_text_def py_def)
  ultimately have routed: "map_sum id (\<lambda>(d, e, l). (title d, embed_color e))
     (main_url example_lib example_base (Responds page_text_response) 1 3)
     = Inr (py ''Hi'', 3066993)"
    by (cases "smart_scrape example_lib page_text example_base Map.empty 2")
       (auto simp: send_discord_embed_def)
  from first look200 look204 samples routed show ?thesis
    by blast
qed


text \<open>
  The records that \<open>smart_scrape\<close> returns have every sequence field non-empty.
\<close>

lemma first5_or_nonempty: "first5_or xs d \<noteq> []"
  by (simp add: first5_or_def)

lemma smart_scrape_sequences_nonempty:
  assumes "smart_scrape L html base_url hs lt = Inr r"
  shows "headlines r \<noteq> [] \<and> subheadlines r \<noteq> [] \<and> summaries r \<noteq> [] \<and>
         favicons r \<noteq> [] \<and> main_images r \<noteq> [] \<and>
         internal_links_sample r \<noteq> [] \<and> external_links_sample r \<noteq> [] \<and> json_ld r \<noteq> []"
  using assms
  by (auto simp: smart_scrape_def find_favicons_def get_main_images_def extract_json_ld_def
        scrape_summaries_def first5_or_nonempty Let_def split: sum.splits prod.splits if_splits)

text \<open>
  Claim C4 fails on the record \<open>main\<close> synthesizes after a failed fetch: its two
  link-sample fields are the empty list, and the two embed fields built from them are
  the empty string.
\<close>

theorem failed_fetch_has_empty_link_samples:
  assumes "urlparse_netloc L url = Inr domain"
  shows "main_url L url (Raises (RequestException None msg)) start finish =
           Inr (failure_record,
                send_discord_embed domain failure_record url (StatusStr (py ''N/A'')),
                LogFailed url (StatusStr (py ''N/A'')) (RequestException None msg)) \<and>
         internal_links_sample failure_record = [] \<and>
         external_links_sample failure_record = [] \<and>
         embed_internal_sample
           (send_discord_embed domain failure_record url (StatusStr (py ''N/A''))) = [] \<and>
         embed_external_sample
           (send_discord_embed domain failure_record url (StatusStr (py ''N/A''))) = []"
proof -
  have "main_url L url (Raises (RequestException None msg)) start finish =
           Inr (failure_record,
                send_discord_embed domain failure_record url (StatusStr (py ''N/A'')),
                LogFailed url (StatusStr (py ''N/A'')) (RequestException None msg))"
    using assms
    by (simp add: main_url_def fetch_website_content_def handle_request_exception_def truthy_def)
  then show ?thesis
    by (simp add: send_discord_embed_def failure_record_def safe_truncate_def)
qed

theorem failed_fetch_has_empty_link_samples_witness:
  "main_url example_lib example_base (Raises (RequestException None (py ''timed out''))) 1 3 =
     Inr (failure_record,
          send_discord_embed (py ''a.com'') failure_record example_base (StatusStr (py ''N/A'')),
          LogFailed example_base (StatusStr (py ''N/A''))
            (RequestException None (py ''timed out''))) \<and>
   internal_links_sample failure_record = [] \<and>
   external_links_sample failure_record = [] \<and>
   embed_internal_sample
     (send_discord_embed (py ''a.com'') failure_record example_base (StatusStr (py ''N/A''))) = [] \<and>
   embed_external_sample
     (send_discord_embed (py ''a.com'') failure_record example_base (StatusStr (py ''N/A''))) = []"
proof -
  have n: "urlparse_netloc example_lib example_base = Inr (py ''a.com'')"
    by (simp add: example_lib_def example_base_def)
  show ?thesis
    using failed_fetch_has_empty_link_samples [OF n] by blast
qed

end
